theory Spec2Isabelle
  imports Complex_Main
begin

section \<open>Python values\<close>

text \<open>
  The module \<^verbatim>\<open>lib/datasource_manager.py\<close> works on decoded JSON documents (the
  result of \<^verbatim>\<open>response.json()\<close>) and on Python numbers. A JSON document is a
  value of \<open>json\<close>; a dictionary keeps its items as an association list that is read
  with \<open>map_of\<close>. Python distinguishes \<^verbatim>\<open>int\<close> from \<^verbatim>\<open>float\<close>, and so do
  \<open>JInt\<close> and \<open>JFloat\<close>. A float is modelled by the rational number it denotes:
  arithmetic is exact, where the interpreter rounds every operation to a double, and
  the non-finite floats do not occur.
\<close>

datatype json =
    JNull
  | JBool bool
  | JInt int
  | JFloat rat
  | JStr string
  | JList "json list"
  | JDict "(string \<times> json) list"

text \<open>The exceptions the module can meet. \<open>RequestException\<close> stands for every
  fault of the HTTP library (time-out, transport error).\<close>

datatype py_error =
    AttributeError
  | IndexError
  | KeyError
  | TypeError
  | ValueError
  | RequestException

type_synonym 'a res = "py_error + 'a"

definition ebind :: "'a res \<Rightarrow> ('a \<Rightarrow> 'b res) \<Rightarrow> 'b res" where
  "ebind m f = (case m of Inl e \<Rightarrow> Inl e | Inr x \<Rightarrow> f x)"

text \<open>A Python number: \<^verbatim>\<open>bool\<close> is a subclass of \<^verbatim>\<open>int\<close>.\<close>

datatype pynum = PInt int | PFloat rat

fun num_of :: "json \<Rightarrow> pynum res" where
  "num_of (JInt i) = Inr (PInt i)"
| "num_of (JFloat r) = Inr (PFloat r)"
| "num_of (JBool b) = Inr (PInt (if b then 1 else 0))"
| "num_of _ = Inl TypeError"

fun num_val :: "pynum \<Rightarrow> rat" where
  "num_val (PInt i) = of_int i"
| "num_val (PFloat r) = r"

text \<open>\<^verbatim>\<open>round\<close> rounds to the nearest integer and an exact half to the even
  neighbour, for \<^verbatim>\<open>round(x)\<close> and for \<^verbatim>\<open>round(x, 0)\<close> alike.\<close>

definition py_round :: "rat \<Rightarrow> int" where
  "py_round x =
     (let f = \<lfloor>x\<rfloor>; d = x - of_int f
      in if d < 1 / 2 then f
         else if 1 / 2 < d then f + 1
         else if even f then f else f + 1)"

text \<open>\<^verbatim>\<open>int(x)\<close> of a number truncates towards zero.\<close>

definition py_trunc :: "rat \<Rightarrow> int" where
  "py_trunc x = (if 0 \<le> x then \<lfloor>x\<rfloor> else \<lceil>x\<rceil>)"

text \<open>\<^verbatim>\<open>round(x, 0)\<close>: an int stays an int, a float becomes the float of the
  rounded value. Other JSON values have no \<^verbatim>\<open>__round__\<close>.\<close>

fun round0 :: "pynum \<Rightarrow> pynum" where
  "round0 (PInt i) = PInt i"
| "round0 (PFloat r) = PFloat (of_int (py_round r))"

fun int_of_num :: "pynum \<Rightarrow> int" where
  "int_of_num (PInt i) = i"
| "int_of_num (PFloat r) = py_trunc r"

subsection \<open>Decimal text of an integer\<close>

fun digit_char :: "nat \<Rightarrow> char" where
  "digit_char n = char_of (48 + n)"

fun str_nat :: "nat \<Rightarrow> string" where
  "str_nat n = (if n < 10 then [digit_char n] else str_nat (n div 10) @ [digit_char (n mod 10)])"

definition str_int :: "int \<Rightarrow> string" where
  "str_int i = (if i < 0 then CHR ''-'' # str_nat (nat (- i)) else str_nat (nat i))"

subsection \<open>Dictionary and sequence access\<close>

text \<open>\<^verbatim>\<open>d.get(k, default)\<close>: only a dict has the method.\<close>

fun py_get :: "json \<Rightarrow> string \<Rightarrow> json \<Rightarrow> json res" where
  "py_get (JDict kvs) k dflt = Inr (case map_of kvs k of Some v \<Rightarrow> v | None \<Rightarrow> dflt)"
| "py_get _ k dflt = Inl AttributeError"

text \<open>\<^verbatim>\<open>x[0]\<close>.\<close>

fun py_index0 :: "json \<Rightarrow> json res" where
  "py_index0 (JList []) = Inl IndexError"
| "py_index0 (JList (x # xs)) = Inr x"
| "py_index0 (JStr []) = Inl IndexError"
| "py_index0 (JStr (c # cs)) = Inr (JStr [c])"
| "py_index0 (JDict kvs) = Inl KeyError"
| "py_index0 _ = Inl TypeError"

text \<open>\<^verbatim>\<open>k in x\<close> for a string \<open>k\<close>: a key of a dict, an element of a list, a
  substring of a string.\<close>

fun is_substring :: "string \<Rightarrow> string \<Rightarrow> bool" where
  "is_substring k [] = (k = [])"
| "is_substring k (c # cs) = (take (length k) (c # cs) = k \<or> is_substring k cs)"

fun py_in :: "string \<Rightarrow> json \<Rightarrow> bool res" where
  "py_in k (JDict kvs) = Inr (k \<in> fst ` set kvs)"
| "py_in k (JList xs) = Inr (JStr k \<in> set xs)"
| "py_in k (JStr s) = Inr (is_substring k s)"
| "py_in k _ = Inl TypeError"

text \<open>\<^verbatim>\<open>x[k]\<close> for a string \<open>k\<close>.\<close>

fun py_item :: "json \<Rightarrow> string \<Rightarrow> json res" where
  "py_item (JDict kvs) k = (case map_of kvs k of Some v \<Rightarrow> Inr v | None \<Rightarrow> Inl KeyError)"
| "py_item _ k = Inl TypeError"

text \<open>Truth value of a JSON document (\<^verbatim>\<open>not data\<close>).\<close>

fun truthy :: "json \<Rightarrow> bool" where
  "truthy JNull = False"
| "truthy (JBool b) = b"
| "truthy (JInt i) = (i \<noteq> 0)"
| "truthy (JFloat r) = (r \<noteq> 0)"
| "truthy (JStr s) = (s \<noteq> [])"
| "truthy (JList xs) = (xs \<noteq> [])"
| "truthy (JDict kvs) = (kvs \<noteq> [])"

fun is_dict :: "json \<Rightarrow> bool" where
  "is_dict (JDict kvs) = True"
| "is_dict _ = False"

text \<open>\<^verbatim>\<open>xs[:days]\<close>: a negative bound counts from the end.\<close>

definition py_slice_to :: "int \<Rightarrow> 'a list \<Rightarrow> 'a list" where
  "py_slice_to days xs =
     (if 0 \<le> days then take (nat days) xs else take (length xs - nat (- days)) xs)"

text \<open>The items a \<^verbatim>\<open>for\<close> loop over \<^verbatim>\<open>x[:days]\<close> visits: the elements of a list,
  the characters of a string; nothing else can be sliced.\<close>

fun py_iter_slice :: "json \<Rightarrow> int \<Rightarrow> json list res" where
  "py_iter_slice (JList xs) days = Inr (py_slice_to days xs)"
| "py_iter_slice (JStr s) days = Inr (map (\<lambda>c. JStr [c]) (py_slice_to days s))"
| "py_iter_slice _ days = Inl TypeError"

text \<open>A loop body that may raise, run over the items in order.\<close>

fun emap :: "('a \<Rightarrow> 'b res) \<Rightarrow> 'a list \<Rightarrow> 'b list res" where
  "emap f [] = Inr []"
| "emap f (x # xs) = ebind (f x) (\<lambda>y. ebind (emap f xs) (\<lambda>ys. Inr (y # ys)))"

subsection \<open>Conversions to \<^verbatim>\<open>int\<close> and \<^verbatim>\<open>str\<close>\<close>

text \<open>\<^verbatim>\<open>int(s)\<close> of a string, for ASCII text: blanks around an optional sign and
  decimal digits, which single underscores may separate.\<close>

definition is_digit :: "char \<Rightarrow> bool" where
  "is_digit c = (48 \<le> (of_char c :: nat) \<and> (of_char c :: nat) \<le> 57)"

definition digit_val :: "char \<Rightarrow> nat" where
  "digit_val c = of_char c - 48"

definition is_space :: "char \<Rightarrow> bool" where
  "is_space c = ((of_char c :: nat) = 32 \<or> (9 \<le> (of_char c :: nat) \<and> (of_char c :: nat) \<le> 13))"

fun parse_digits :: "nat \<Rightarrow> string \<Rightarrow> nat option" where
  "parse_digits acc [] = Some acc"
| "parse_digits acc [c] = (if is_digit c then Some (acc * 10 + digit_val c) else None)"
| "parse_digits acc (c # d # ds) =
     (if is_digit c then parse_digits (acc * 10 + digit_val c) (d # ds)
      else if c = CHR ''_'' \<and> is_digit d then parse_digits (acc * 10 + digit_val d) ds
      else None)"

fun parse_nat :: "string \<Rightarrow> nat option" where
  "parse_nat [] = None"
| "parse_nat (c # cs) = (if is_digit c then parse_digits (digit_val c) cs else None)"

definition strip :: "string \<Rightarrow> string" where
  "strip s = rev (dropWhile is_space (rev (dropWhile is_space s)))"

fun parse_int :: "string \<Rightarrow> int option" where
  "parse_int [] = None"
| "parse_int (c # cs) =
     (if c = CHR ''-'' then map_option (\<lambda>n. - int n) (parse_nat cs)
      else if c = CHR ''+'' then map_option int (parse_nat cs)
      else map_option int (parse_nat (c # cs)))"

text \<open>\<^verbatim>\<open>int(x)\<close> of a JSON value.\<close>

fun py_int :: "json \<Rightarrow> int res" where
  "py_int (JInt i) = Inr i"
| "py_int (JFloat r) = Inr (py_trunc r)"
| "py_int (JBool b) = Inr (if b then 1 else 0)"
| "py_int (JStr s) = (case parse_int (strip s) of Some i \<Rightarrow> Inr i | None \<Rightarrow> Inl ValueError)"
| "py_int _ = Inl TypeError"

text \<open>
  The objects the adapters build. \<open>PStr\<close> is a string whose text is known. The text
  Python prints for a float, a list or a dict is not modelled: \<open>PStrOf v\<close> is the string
  \<^verbatim>\<open>str(v)\<close> for such a value. \<open>PRaw v\<close> is the JSON value \<open>v\<close> stored as it is,
  \<open>PFmt\<close> an f-string, given by its pieces.
\<close>

datatype pyobj =
    PStr string
  | PStrOf json
  | PRaw json
  | PFmt "pyobj list"
  | PList "pyobj list"
  | PDict "(string \<times> pyobj) list"

fun py_str :: "json \<Rightarrow> pyobj" where
  "py_str JNull = PStr ''None''"
| "py_str (JBool b) = PStr (if b then ''True'' else ''False'')"
| "py_str (JInt i) = PStr (str_int i)"
| "py_str (JStr s) = PStr s"
| "py_str v = PStrOf v"

text \<open>A dict display evaluates its items from left to right; the first item that
  raises ends the evaluation.\<close>

fun eitems :: "(string \<times> 'a res) list \<Rightarrow> (string \<times> 'a) list res" where
  "eitems [] = Inr []"
| "eitems ((k, r) # kvs) = ebind r (\<lambda>v. ebind (eitems kvs) (\<lambda>rest. Inr ((k, v) # rest)))"

definition mk_dict :: "(string \<times> pyobj res) list \<Rightarrow> pyobj res" where
  "mk_dict kvs = ebind (eitems kvs) (\<lambda>items. Inr (PDict items))"

text \<open>Reading the result: \<^verbatim>\<open>d[k]\<close> of a built dict, and \<^verbatim>\<open>d.pop(k, None)\<close>.\<close>

fun field :: "pyobj \<Rightarrow> string \<Rightarrow> pyobj option" where
  "field (PDict kvs) k = map_of kvs k"
| "field _ k = None"

fun py_pop :: "string \<Rightarrow> pyobj \<Rightarrow> pyobj" where
  "py_pop k (PDict kvs) = PDict (filter (\<lambda>kv. fst kv \<noteq> k) kvs)"
| "py_pop k v = v"

text \<open>Truth value of a result (\<^verbatim>\<open>if data:\<close>).\<close>

fun truthy_obj :: "pyobj \<Rightarrow> bool" where
  "truthy_obj (PStr s) = (s \<noteq> [])"
| "truthy_obj (PStrOf v) = True"
| "truthy_obj (PRaw v) = truthy v"
| "truthy_obj (PFmt ps) = (ps \<noteq> [])"
| "truthy_obj (PList ps) = (ps \<noteq> [])"
| "truthy_obj (PDict kvs) = (kvs \<noteq> [])"

subsection \<open>The expressions the adapters share\<close>

text \<open>\<^verbatim>\<open>str(int(round(x, 0)))\<close> for a value \<open>x\<close> read from the payload, and for a
  float the adapter computed.\<close>

definition str_round :: "json \<Rightarrow> pyobj res" where
  "str_round x = ebind (num_of x) (\<lambda>n. Inr (PStr (str_int (int_of_num (round0 n)))))"

definition str_round_float :: "rat \<Rightarrow> pyobj" where
  "str_round_float r = PStr (str_int (int_of_num (round0 (PFloat r))))"

text \<open>\<^verbatim>\<open>c * 9/5 + 32\<close>: the division makes the result a float. A string or a list
  survives \<^verbatim>\<open>* 9\<close> and fails at \<^verbatim>\<open>/ 5\<close>, every other value fails at once.\<close>

definition c_to_f :: "json \<Rightarrow> rat res" where
  "c_to_f c = ebind (num_of c) (\<lambda>n. Inr (num_val n * 9 / 5 + 32))"

text \<open>\<^verbatim>\<open>x * k\<close> for a float constant \<open>k\<close>.\<close>

definition times_float :: "json \<Rightarrow> rat \<Rightarrow> rat res" where
  "times_float x k = ebind (num_of x) (\<lambda>n. Inr (num_val n * k))"

text \<open>\<^verbatim>\<open>x * 1000\<close>: a number is multiplied, a string or a list is repeated.\<close>

fun times_1000 :: "json \<Rightarrow> json res" where
  "times_1000 (JInt i) = Inr (JInt (i * 1000))"
| "times_1000 (JFloat r) = Inr (JFloat (r * 1000))"
| "times_1000 (JBool b) = Inr (JInt ((if b then 1 else 0) * 1000))"
| "times_1000 (JStr s) = Inr (JStr (concat (replicate 1000 s)))"
| "times_1000 (JList xs) = Inr (JList (concat (replicate 1000 xs)))"
| "times_1000 _ = Inl TypeError"

text \<open>\<^verbatim>\<open>s.capitalize()\<close>, for ASCII text.\<close>

definition upper_char :: "char \<Rightarrow> char" where
  "upper_char c =
     (if 97 \<le> (of_char c :: nat) \<and> (of_char c :: nat) \<le> 122 then char_of ((of_char c :: nat) - 32) else c)"

definition lower_char :: "char \<Rightarrow> char" where
  "lower_char c =
     (if 65 \<le> (of_char c :: nat) \<and> (of_char c :: nat) \<le> 90 then char_of ((of_char c :: nat) + 32) else c)"

fun capitalize :: "json \<Rightarrow> pyobj res" where
  "capitalize (JStr []) = Inr (PStr [])"
| "capitalize (JStr (c # cs)) = Inr (PStr (upper_char c # map lower_char cs))"
| "capitalize _ = Inl AttributeError"

section \<open>The normalizer set\<close>

subsection \<open>Shared helpers\<close>

text \<open>\<^verbatim>\<open>_openweather_to_wwo_code\<close>: the table is a dict with int keys, read with
  \<^verbatim>\<open>mapping.get(owm_code, 113)\<close>. A float that equals an int finds the int's entry; a
  list or a dict cannot be hashed.\<close>

definition owm_mapping :: "(int \<times> int) list" where
  "owm_mapping =
     [(200, 200), (201, 386), (202, 389), (210, 200), (211, 389), (212, 389), (221, 389),
      (230, 200), (231, 386), (232, 389),
      (300, 266), (301, 266), (302, 302), (310, 266), (311, 293), (312, 302), (313, 305),
      (314, 302), (321, 299),
      (500, 176), (501, 293), (502, 302), (503, 308), (504, 308), (511, 284), (520, 299),
      (521, 305), (522, 302), (531, 305),
      (600, 320), (601, 332), (602, 230), (611, 281), (612, 284), (613, 284), (615, 317),
      (616, 317), (620, 368), (621, 371), (622, 230),
      (701, 143), (711, 143), (721, 143), (731, 143), (741, 143), (751, 143), (761, 143),
      (762, 143), (771, 143), (781, 143),
      (800, 113), (801, 116), (802, 119), (803, 119), (804, 122)]"

definition mapping_get :: "int \<Rightarrow> int" where
  "mapping_get k = (case map_of owm_mapping k of Some v \<Rightarrow> v | None \<Rightarrow> 113)"

fun openweather_to_wwo_code :: "json \<Rightarrow> int res" where
  "openweather_to_wwo_code (JInt i) = Inr (mapping_get i)"
| "openweather_to_wwo_code (JFloat r) = Inr (if r = of_int \<lfloor>r\<rfloor> then mapping_get \<lfloor>r\<rfloor> else 113)"
| "openweather_to_wwo_code (JBool b) = Inr (mapping_get (if b then 1 else 0))"
| "openweather_to_wwo_code (JList xs) = Inl TypeError"
| "openweather_to_wwo_code (JDict kvs) = Inl TypeError"
| "openweather_to_wwo_code _ = Inr 113"

text \<open>\<^verbatim>\<open>_degrees_to_16_point\<close>. Python's \<^verbatim>\<open>%\<close> with a positive modulus is never
  negative, as \<open>mod\<close> on \<open>int\<close>, so the index is within the list.\<close>

definition directions :: "string list" where
  "directions =
     [''N'', ''NNE'', ''NE'', ''ENE'', ''E'', ''ESE'', ''SE'', ''SSE'',
      ''S'', ''SSW'', ''SW'', ''WSW'', ''W'', ''WNW'', ''NW'', ''NNW'']"

definition degrees_to_16_point :: "json \<Rightarrow> string res" where
  "degrees_to_16_point degrees =
     ebind (num_of degrees) (\<lambda>d.
       let index = py_round (num_val d / 22.5) mod 16
       in Inr (directions ! nat index))"

subsection \<open>MET Norway\<close>

text \<open>\<^verbatim>\<open>_convert_metno_to_standard\<close>: declared to return a dict, never \<^verbatim>\<open>None\<close>.\<close>

definition convert_metno_to_standard :: "json \<Rightarrow> int \<Rightarrow> pyobj res" where
  "convert_metno_to_standard data days =
     ebind (py_get data ''properties'' (JDict [])) (\<lambda>properties.
     ebind (py_get properties ''timeseries'' (JList [JDict []])) (\<lambda>timeseries.
     ebind (py_index0 timeseries) (\<lambda>first.
     ebind (py_get first ''data'' (JDict [])) (\<lambda>d.
     ebind (py_get d ''instant'' (JDict [])) (\<lambda>instant.
     ebind (py_get instant ''details'' (JDict [])) (\<lambda>details.
     ebind (py_get details ''air_temperature'' (JInt 0)) (\<lambda>air_temperature.
     Inr (PDict [(''data'', PDict
       [(''current_condition'', PList [PDict
           [(''temp_C'', py_str air_temperature),
            (''weatherDesc'', PList [PDict [(''value'', PStr ''Clear'')]]),
            (''humidity'', PStr ''50''),
            (''windspeedKmph'', PStr ''10'')]]),
        (''weather'', PList [])])]))))))))"

subsection \<open>OpenWeatherMap\<close>

text \<open>\<^verbatim>\<open>_convert_openweather_hourly\<close>.\<close>

definition convert_openweather_hourly :: "json \<Rightarrow> pyobj res" where
  "convert_openweather_hourly hour_data =
     ebind (py_get hour_data ''temp'' (JInt 0)) (\<lambda>temp0.
     ebind (if is_dict temp0 then py_get temp0 ''day'' (JInt 0) else Inr temp0) (\<lambda>temp_c.
     ebind (py_get hour_data ''weather'' (JList [JDict []])) (\<lambda>w1.
     ebind (py_index0 w1) (\<lambda>w1_0.
     ebind (py_get w1_0 ''id'' (JInt 800)) (\<lambda>weather_id.
     ebind (openweather_to_wwo_code weather_id) (\<lambda>weather_code.
     ebind (py_get hour_data ''weather'' (JList [JDict []])) (\<lambda>w2.
     ebind (py_index0 w2) (\<lambda>w2_0.
     ebind (py_get w2_0 ''description'' (JStr ''Clear'')) (\<lambda>weather_desc.
     ebind (py_get hour_data ''wind_speed'' (JInt 0)) (\<lambda>wind_speed_mps.
     ebind (times_float wind_speed_mps 3.6) (\<lambda>wind_speed_kmph.
     mk_dict
       [(''temp_C'', str_round temp_c),
        (''temp_F'', ebind (c_to_f temp_c) (\<lambda>f. Inr (str_round_float f))),
        (''weatherCode'', Inr (PStr (str_int weather_code))),
        (''weatherDesc'',
           ebind (capitalize weather_desc) (\<lambda>s. Inr (PList [PDict [(''value'', s)]]))),
        (''windspeedKmph'', Inr (str_round_float wind_speed_kmph)),
        (''windspeedMiles'', Inr (str_round_float (wind_speed_kmph * 0.621371))),
        (''winddirDegree'', ebind (py_get hour_data ''wind_deg'' (JInt 0)) (\<lambda>v. Inr (py_str v))),
        (''winddir16Point'',
           ebind (py_get hour_data ''wind_deg'' (JInt 0)) (\<lambda>v.
           ebind (degrees_to_16_point v) (\<lambda>s. Inr (PStr s)))),
        (''precipMM'',
           ebind (py_in ''rain'' hour_data) (\<lambda>has_rain.
             if has_rain
             then ebind (py_get hour_data ''rain'' (JDict [])) (\<lambda>rain.
                  ebind (py_get rain ''1h'' (JInt 0)) (\<lambda>v. Inr (py_str v)))
             else Inr (py_str (JInt 0)))),
        (''humidity'', ebind (py_get hour_data ''humidity'' (JInt 0)) (\<lambda>v. Inr (py_str v))),
        (''pressure'', ebind (py_get hour_data ''pressure'' (JInt 0)) (\<lambda>v. Inr (py_str v))),
        (''visibility'',
           ebind (py_in ''visibility'' hour_data) (\<lambda>has_visibility.
             if has_visibility
             then ebind (py_get hour_data ''visibility'' (JInt 0)) (\<lambda>v. Inr (py_str v))
             else Inr (py_str (JInt 10000)))),
        (''cloudcover'', ebind (py_get hour_data ''clouds'' (JInt 0)) (\<lambda>v. Inr (py_str v))),
        (''FeelsLikeC'', ebind (py_get hour_data ''feels_like'' temp_c) str_round),
        (''uvIndex'',
           ebind (py_get hour_data ''uvi'' (JInt 0)) (\<lambda>v.
           ebind (py_int v) (\<lambda>i. Inr (PStr (str_int i)))))]
     )))))))))))"

text \<open>\<^verbatim>\<open>_convert_openweather_daily\<close>.\<close>

definition convert_openweather_daily :: "json \<Rightarrow> pyobj res" where
  "convert_openweather_daily day_data =
     ebind (py_get day_data ''temp'' (JDict [])) (\<lambda>temp.
     mk_dict
       [(''date'', ebind (py_get day_data ''dt'' (JInt 0)) (\<lambda>v. Inr (PRaw v))),
        (''maxtempC'', ebind (py_get temp ''max'' (JInt 0)) str_round),
        (''maxtempF'',
           ebind (py_get temp ''max'' (JInt 0)) (\<lambda>v. ebind (c_to_f v) (\<lambda>f. Inr (str_round_float f)))),
        (''mintempC'', ebind (py_get temp ''min'' (JInt 0)) str_round),
        (''mintempF'',
           ebind (py_get temp ''min'' (JInt 0)) (\<lambda>v. ebind (c_to_f v) (\<lambda>f. Inr (str_round_float f)))),
        (''avgtempC'', ebind (py_get temp ''day'' (JInt 0)) str_round),
        (''avgtempF'',
           ebind (py_get temp ''day'' (JInt 0)) (\<lambda>v. ebind (c_to_f v) (\<lambda>f. Inr (str_round_float f)))),
        (''totalSnow_cm'', ebind (py_get day_data ''snow'' (JInt 0)) (\<lambda>v. Inr (py_str v))),
        (''sunHour'', Inr (PStr ''12'')),
        (''uvIndex'',
           ebind (py_get day_data ''uvi'' (JInt 0)) (\<lambda>v.
           ebind (py_int v) (\<lambda>i. Inr (PStr (str_int i))))),
        (''hourly'', Inr (PList []))])"

text \<open>The envelope every adapter but MET Norway's returns.\<close>

definition standard :: "pyobj \<Rightarrow> pyobj \<Rightarrow> pyobj list \<Rightarrow> pyobj" where
  "standard query current_condition weather =
     PDict [(''data'', PDict
       [(''request'', PList [PDict [(''type'', PStr ''feature''), (''query'', query)]]),
        (''current_condition'', PList [current_condition]),
        (''weather'', PList weather)])]"

text \<open>\<^verbatim>\<open>_convert_openweather_to_standard\<close>.\<close>

definition convert_openweather_to_standard :: "json \<Rightarrow> int \<Rightarrow> pyobj option res" where
  "convert_openweather_to_standard data days =
     (if \<not> truthy data then Inr None
      else ebind (py_in ''current'' data) (\<lambda>has_current.
        if \<not> has_current then Inr None
        else
          ebind (py_item data ''current'') (\<lambda>current.
          ebind (py_get data ''lat'' (JInt 0)) (\<lambda>lat.
          ebind (py_get data ''lon'' (JInt 0)) (\<lambda>lon.
          ebind (convert_openweather_hourly current) (\<lambda>current_condition.
          ebind (py_in ''daily'' data) (\<lambda>has_daily.
          ebind (if has_daily
                 then ebind (py_item data ''daily'') (\<lambda>daily.
                      ebind (py_iter_slice daily days) (emap convert_openweather_daily))
                 else Inr []) (\<lambda>weather.
          Inr (Some (standard (PFmt [py_str lat, PStr '','', py_str lon])
                       current_condition weather))))))))))"

subsection \<open>WeatherAPI\<close>

text \<open>\<^verbatim>\<open>_convert_weatherapi_hourly\<close>. The default of a \<^verbatim>\<open>get\<close> is computed before
  the call, also when the key is present.\<close>

definition convert_weatherapi_hourly :: "json \<Rightarrow> pyobj res" where
  "convert_weatherapi_hourly hour_data =
     ebind (py_get hour_data ''temp_c'' (JInt 0)) (\<lambda>temp_c.
     ebind (py_get hour_data ''wind_kph'' (JInt 0)) (\<lambda>wind_kmph.
     mk_dict
       [(''temp_C'', str_round temp_c),
        (''temp_F'',
           ebind (c_to_f temp_c) (\<lambda>f.
           ebind (py_get hour_data ''temp_f'' (JFloat f)) str_round)),
        (''weatherCode'',
           ebind (py_get hour_data ''condition'' (JDict [])) (\<lambda>condition.
           ebind (py_get condition ''code'' (JInt 1000)) (\<lambda>v. Inr (py_str v)))),
        (''weatherDesc'',
           ebind (py_get hour_data ''condition'' (JDict [])) (\<lambda>condition.
           ebind (py_get condition ''text'' (JStr ''Clear'')) (\<lambda>v.
           Inr (PList [PDict [(''value'', PRaw v)]])))),
        (''windspeedKmph'', str_round wind_kmph),
        (''windspeedMiles'',
           ebind (times_float wind_kmph 0.621371) (\<lambda>m.
           ebind (py_get hour_data ''wind_mph'' (JFloat m)) str_round)),
        (''winddirDegree'', ebind (py_get hour_data ''wind_degree'' (JInt 0)) (\<lambda>v. Inr (py_str v))),
        (''winddir16Point'', ebind (py_get hour_data ''wind_dir'' (JStr ''N'')) (\<lambda>v. Inr (PRaw v))),
        (''precipMM'', ebind (py_get hour_data ''precip_mm'' (JInt 0)) (\<lambda>v. Inr (py_str v))),
        (''humidity'', ebind (py_get hour_data ''humidity'' (JInt 0)) (\<lambda>v. Inr (py_str v))),
        (''pressure'', ebind (py_get hour_data ''pressure_mb'' (JInt 0)) (\<lambda>v. Inr (py_str v))),
        (''visibility'',
           ebind (py_get hour_data ''vis_km'' (JInt 0)) (\<lambda>v.
           ebind (times_1000 v) (\<lambda>m. Inr (py_str m)))),
        (''cloudcover'', ebind (py_get hour_data ''cloud'' (JInt 0)) (\<lambda>v. Inr (py_str v))),
        (''FeelsLikeC'', ebind (py_get hour_data ''feelslike_c'' temp_c) str_round),
        (''uvIndex'',
           ebind (py_get hour_data ''uv'' (JInt 0)) (\<lambda>v.
           ebind (py_int v) (\<lambda>i. Inr (PStr (str_int i)))))]))"

text \<open>\<^verbatim>\<open>_convert_weatherapi_daily\<close>.\<close>

definition convert_weatherapi_daily :: "json \<Rightarrow> pyobj res" where
  "convert_weatherapi_daily day_data =
     ebind (py_get day_data ''day'' (JDict [])) (\<lambda>day.
     mk_dict
       [(''date'', ebind (py_get day_data ''date'' (JStr [])) (\<lambda>v. Inr (PRaw v))),
        (''maxtempC'', ebind (py_get day ''maxtemp_c'' (JInt 0)) str_round),
        (''maxtempF'', ebind (py_get day ''maxtemp_f'' (JInt 0)) str_round),
        (''mintempC'', ebind (py_get day ''mintemp_c'' (JInt 0)) str_round),
        (''mintempF'', ebind (py_get day ''mintemp_f'' (JInt 0)) str_round),
        (''avgtempC'', ebind (py_get day ''avgtemp_c'' (JInt 0)) str_round),
        (''avgtempF'', ebind (py_get day ''avgtemp_f'' (JInt 0)) str_round),
        (''totalSnow_cm'', ebind (py_get day ''totalsnow_cm'' (JInt 0)) (\<lambda>v. Inr (py_str v))),
        (''sunHour'', Inr (PStr ''12'')),
        (''uvIndex'',
           ebind (py_get day ''uv'' (JInt 0)) (\<lambda>v.
           ebind (py_int v) (\<lambda>i. Inr (PStr (str_int i))))),
        (''hourly'', Inr (PList []))])"

text \<open>\<^verbatim>\<open>_convert_weatherapi_to_standard\<close>. The \<^verbatim>\<open>or\<close> and \<^verbatim>\<open>and\<close> of the source
  evaluate their right operand only when the left one does not decide.\<close>

definition convert_weatherapi_to_standard :: "json \<Rightarrow> int \<Rightarrow> pyobj option res" where
  "convert_weatherapi_to_standard data days =
     (if \<not> truthy data then Inr None
      else ebind (py_in ''current'' data) (\<lambda>has_current.
        if \<not> has_current then Inr None
        else ebind (py_in ''location'' data) (\<lambda>has_location.
        if \<not> has_location then Inr None
        else
          ebind (py_item data ''current'') (\<lambda>current.
          ebind (py_item data ''location'') (\<lambda>location.
          ebind (convert_weatherapi_hourly current) (\<lambda>current_condition.
          ebind (py_in ''forecast'' data) (\<lambda>has_forecast.
          ebind (if has_forecast
                 then ebind (py_item data ''forecast'') (\<lambda>forecast.
                      ebind (py_in ''forecastday'' forecast) (\<lambda>has_forecastday.
                        if has_forecastday
                        then ebind (py_item data ''forecast'') (\<lambda>forecast2.
                             ebind (py_item forecast2 ''forecastday'') (\<lambda>forecastday.
                             ebind (py_iter_slice forecastday days) (emap convert_weatherapi_daily)))
                        else Inr []))
                 else Inr []) (\<lambda>weather.
          ebind (py_get location ''lat'' (JInt 0)) (\<lambda>lat.
          ebind (py_get location ''lon'' (JInt 0)) (\<lambda>lon.
          Inr (Some (standard (PFmt [py_str lat, PStr '','', py_str lon])
                       current_condition weather))))))))))))"

subsection \<open>AccuWeather\<close>

text \<open>\<^verbatim>\<open>(max_temp + min_temp) / 2\<close>: two numbers give a float; two strings or two lists
  are joined by \<^verbatim>\<open>+\<close> and fail at the division, everything else fails at \<^verbatim>\<open>+\<close>.\<close>

definition average :: "json \<Rightarrow> json \<Rightarrow> rat res" where
  "average a b = ebind (num_of a) (\<lambda>x. ebind (num_of b) (\<lambda>y. Inr ((num_val x + num_val y) / 2)))"

text \<open>\<^verbatim>\<open>_convert_accuweather_daily\<close>.\<close>

definition convert_accuweather_daily :: "json \<Rightarrow> pyobj res" where
  "convert_accuweather_daily day_data =
     ebind (py_get day_data ''Temperature'' (JDict [])) (\<lambda>temp.
     ebind (py_get day_data ''RealFeelTemperature'' (JDict [])) (\<lambda>real_feel.
     ebind (py_get day_data ''Wind'' (JDict [])) (\<lambda>wind0.
     ebind (py_get wind0 ''Speed'' (JDict [])) (\<lambda>wind.
     ebind (py_get temp ''Maximum'' (JDict [])) (\<lambda>maximum.
     ebind (py_get maximum ''Value'' (JInt 0)) (\<lambda>max_temp.
     ebind (py_get temp ''Minimum'' (JDict [])) (\<lambda>minimum.
     ebind (py_get minimum ''Value'' (JInt 0)) (\<lambda>min_temp.
     ebind (average max_temp min_temp) (\<lambda>avg_temp.
     mk_dict
       [(''date'', ebind (py_get day_data ''Date'' (JStr [])) (\<lambda>v. Inr (PRaw v))),
        (''maxtempC'', str_round max_temp),
        (''maxtempF'', ebind (c_to_f max_temp) (\<lambda>f. Inr (str_round_float f))),
        (''mintempC'', str_round min_temp),
        (''mintempF'', ebind (c_to_f min_temp) (\<lambda>f. Inr (str_round_float f))),
        (''avgtempC'', Inr (str_round_float avg_temp)),
        (''avgtempF'', Inr (str_round_float (avg_temp * 9 / 5 + 32))),
        (''totalSnow_cm'', Inr (PStr ''0'')),
        (''sunHour'', ebind (py_get day_data ''HoursOfSun'' (JInt 12)) (\<lambda>v. Inr (py_str v))),
        (''uvIndex'', ebind (py_get day_data ''UVIndex'' (JInt 0)) (\<lambda>v. Inr (py_str v))),
        (''hourly'', Inr (PList [])),
        (''temp_C'', Inr (str_round_float avg_temp)),
        (''temp_F'', Inr (str_round_float (avg_temp * 9 / 5 + 32))),
        (''weatherCode'', Inr (PStr ''113'')),
        (''weatherDesc'',
           ebind (py_get day_data ''IconPhrase'' (JStr ''Clear'')) (\<lambda>v.
           Inr (PList [PDict [(''value'', PRaw v)]]))),
        (''windspeedKmph'',
           ebind (py_get wind ''Value'' (JInt 0)) (\<lambda>v.
           ebind (times_float v 1.60934) (\<lambda>k. Inr (str_round_float k)))),
        (''windspeedMiles'', ebind (py_get wind ''Value'' (JInt 0)) str_round),
        (''winddirDegree'',
           ebind (py_get day_data ''Wind'' (JDict [])) (\<lambda>w.
           ebind (py_get w ''Direction'' (JDict [])) (\<lambda>direction.
           ebind (py_get direction ''Degrees'' (JInt 0)) (\<lambda>v. Inr (py_str v))))),
        (''winddir16Point'', Inr (PStr ''N'')),
        (''precipMM'', Inr (PStr ''0'')),
        (''humidity'', Inr (PStr ''50'')),
        (''pressure'', Inr (PStr ''1013'')),
        (''visibility'', Inr (PStr ''10000'')),
        (''cloudcover'', Inr (PStr ''0'')),
        (''FeelsLikeC'',
           ebind (py_get real_feel ''Maximum'' (JDict [])) (\<lambda>m.
           ebind (py_get m ''Value'' (JFloat avg_temp)) str_round))]
     )))))))))"

text \<open>\<^verbatim>\<open>_convert_accuweather_to_standard\<close>: the payload has to be a list with an
  element. The keys of the daily record are popped from the copy that serves as the
  current condition.\<close>

fun convert_accuweather_to_standard :: "json \<Rightarrow> int \<Rightarrow> pyobj option res" where
  "convert_accuweather_to_standard (JList []) days = Inr None"
| "convert_accuweather_to_standard (JList (d0 # ds)) days =
     ebind (emap convert_accuweather_daily (py_slice_to days (d0 # ds))) (\<lambda>weather.
     ebind (convert_accuweather_daily d0) (\<lambda>first.
     let current_condition =
           py_pop ''avgtempF'' (py_pop ''avgtempC'' (py_pop ''mintempF'' (py_pop ''mintempC''
             (py_pop ''maxtempF'' (py_pop ''maxtempC'' (py_pop ''date'' first))))))
     in Inr (Some (standard (PStr ''0,0'') current_condition weather))))"
| "convert_accuweather_to_standard data days = Inr None"

section \<open>The data source manager\<close>

datatype DataSourceType = METNO | OPENWEATHERMAP | WEATHERAPI | ACCUWEATHER

record DataSource =
  name :: string
  type :: DataSourceType
  base_url :: string
  api_key :: "string option"
  rate_limit :: int
  current_usage :: int
  last_reset :: rat
  enabled :: bool

text \<open>
  The state of the process. \<open>sources\<close> is the dict \<^verbatim>\<open>self.sources\<close>, its items in
  insertion order. The module starts a daemon thread for every disable; a thread that
  is still in \<^verbatim>\<open>time.sleep(300)\<close> is an item of \<open>sleepers\<close>: the name it will
  re-enable and the time at which its sleep ends. \<open>clock\<close> is \<^verbatim>\<open>time.time()\<close>.
  Every operation of the manager runs to its end before the next one starts.
\<close>

record state =
  sources :: "(string \<times> DataSource) list"
  sleepers :: "(string \<times> rat) list"
  clock :: rat

text \<open>\<^verbatim>\<open>self.sources[source_name]\<close>, and an assignment to a field of that object.\<close>

definition lookup :: "state \<Rightarrow> string \<Rightarrow> DataSource option" where
  "lookup st n = map_of (sources st) n"

definition update_source ::
  "string \<Rightarrow> (DataSource \<Rightarrow> DataSource) \<Rightarrow> (string \<times> DataSource) list \<Rightarrow> (string \<times> DataSource) list" where
  "update_source n f = map (\<lambda>kv. if fst kv = n then (fst kv, f (snd kv)) else kv)"

text \<open>\<^verbatim>\<open>_load_sources\<close>: \<open>env\<close> is \<^verbatim>\<open>os.environ.get\<close>. A key that is unset or empty
  leaves its source out.\<close>

definition new_source ::
  "string \<Rightarrow> DataSourceType \<Rightarrow> string \<Rightarrow> string option \<Rightarrow> int \<Rightarrow> DataSource" where
  "new_source n t url k limit =
     \<lparr>name = n, type = t, base_url = url, api_key = k, rate_limit = limit,
      current_usage = 0, last_reset = 0, enabled = True\<rparr>"

definition keyed_source ::
  "(string \<Rightarrow> string option) \<Rightarrow> string \<Rightarrow> string \<Rightarrow> DataSourceType \<Rightarrow> string \<Rightarrow> int
     \<Rightarrow> (string \<times> DataSource) list" where
  "keyed_source env var n t url limit =
     (case env var of
        None \<Rightarrow> []
      | Some k \<Rightarrow> if k = [] then [] else [(n, new_source n t url (Some k) limit)])"

definition load_sources :: "(string \<Rightarrow> string option) \<Rightarrow> (string \<times> DataSource) list" where
  "load_sources env =
     [(''metno'', new_source ''metno'' METNO ''https://api.met.no'' None 5000)]
     @ keyed_source env ''OPENWEATHERMAP_API_KEY'' ''openweathermap'' OPENWEATHERMAP
         ''https://api.openweathermap.org/data/2.5'' 1000
     @ keyed_source env ''WEATHERAPI_KEY'' ''weatherapi'' WEATHERAPI
         ''https://api.weatherapi.com/v1'' 1000000
     @ keyed_source env ''ACCUWEATHER_API_KEY'' ''accuweather'' ACCUWEATHER
         ''https://dataservice.accuweather.com'' 50"

text \<open>The manager as the constructor leaves it, at time \<open>t\<close>.\<close>

definition init :: "(string \<Rightarrow> string option) \<Rightarrow> rat \<Rightarrow> state" where
  "init env t = \<lparr>sources = load_sources env, sleepers = [], clock = t\<rparr>"

text \<open>One sweep of \<^verbatim>\<open>reset_usage\<close> (the thread sleeps an hour between two sweeps).\<close>

definition reset_source :: "rat \<Rightarrow> DataSource \<Rightarrow> DataSource" where
  "reset_source current_time source =
     (if current_time - last_reset source \<ge> 3600
      then source\<lparr>current_usage := 0, last_reset := current_time\<rparr>
      else source)"

definition reset_usage :: "state \<Rightarrow> state" where
  "reset_usage st =
     st\<lparr>sources := map (\<lambda>kv. (fst kv, reset_source (clock st) (snd kv))) (sources st)\<rparr>"

text \<open>\<^verbatim>\<open>get_available_source\<close>. \<^verbatim>\<open>random.choice(seq)\<close> is
  \<^verbatim>\<open>seq[randbelow(len(seq))]\<close>; \<open>rnd\<close> is the number the generator draws, reduced to an
  index of the list.\<close>

definition is_available :: "DataSource \<Rightarrow> bool" where
  "is_available source = (enabled source \<and> current_usage source < rate_limit source)"

definition available_sources :: "state \<Rightarrow> DataSource list" where
  "available_sources st = filter is_available (map snd (sources st))"

definition get_available_source :: "nat \<Rightarrow> state \<Rightarrow> DataSource option" where
  "get_available_source rnd st =
     (let available = available_sources st
      in if available = [] then None
         else Some (available ! (rnd mod length available)))"

text \<open>\<^verbatim>\<open>mark_source_used\<close>.\<close>

definition mark_source_used :: "state \<Rightarrow> string \<Rightarrow> state" where
  "mark_source_used st source_name =
     (if source_name \<in> fst ` set (sources st)
      then st\<lparr>sources :=
             update_source source_name (\<lambda>s. s\<lparr>current_usage := current_usage s + 1\<rparr>) (sources st)\<rparr>
      else st)"

text \<open>\<^verbatim>\<open>disable_source\<close>: the flag is cleared and a thread starts that sleeps 300
  seconds.\<close>

definition disable_source :: "state \<Rightarrow> string \<Rightarrow> state" where
  "disable_source st source_name =
     (if source_name \<in> fst ` set (sources st)
      then st\<lparr>sources := update_source source_name (\<lambda>s. s\<lparr>enabled := False\<rparr>) (sources st),
              sleepers := sleepers st @ [(source_name, clock st + 300)]\<rparr>
      else st)"

text \<open>The rest of \<^verbatim>\<open>reenable\<close>: the \<open>i\<close>-th sleeping thread wakes up, sets the flag and
  ends.\<close>

definition reenable :: "state \<Rightarrow> nat \<Rightarrow> state" where
  "reenable st i =
     st\<lparr>sources := update_source (fst (sleepers st ! i)) (\<lambda>s. s\<lparr>enabled := True\<rparr>) (sources st),
        sleepers := take i (sleepers st) @ drop (Suc i) (sleepers st)\<rparr>"

definition is_enabled :: "state \<Rightarrow> string \<Rightarrow> bool" where
  "is_enabled st n = (case lookup st n of Some s \<Rightarrow> enabled s | None \<Rightarrow> False)"

text \<open>
  What can happen to the state: time passes, a sleeping thread whose sleep has ended
  wakes up, the hourly sweep runs, and a caller uses one of the public operations. A
  thread never wakes before its time; it may wake later.
\<close>

inductive step :: "state \<Rightarrow> state \<Rightarrow> bool" where
  tick: "0 \<le> d \<Longrightarrow> step st (st\<lparr>clock := clock st + d\<rparr>)"
| wake: "i < length (sleepers st) \<Longrightarrow> snd (sleepers st ! i) \<le> clock st \<Longrightarrow> step st (reenable st i)"
| sweep: "step st (reset_usage st)"
| used: "step st (mark_source_used st n)"
| disabled: "step st (disable_source st n)"

inductive steps :: "state \<Rightarrow> state \<Rightarrow> bool" where
  steps_refl: "steps st st"
| steps_step: "steps st st' \<Longrightarrow> step st' st'' \<Longrightarrow> steps st st''"

section \<open>Fetching\<close>

text \<open>
  The HTTP library is the collaborator of the fetch functions. Its answer depends on a
  network the module does not control: \<open>http\<close> takes the URL, the headers and the state
  of the network, and returns the outcome of \<^verbatim>\<open>requests.get(url, timeout=10)\<close> with
  the network after the request. An outcome is an exception or a response;
  \<open>json_result\<close> is what \<^verbatim>\<open>response.json()\<close> gives, which raises on a body that is
  not JSON.
\<close>

record response =
  status_code :: int
  json_result :: "json res"

type_synonym 'net http = "pyobj \<Rightarrow> (string \<times> string) list \<Rightarrow> 'net \<Rightarrow> response res \<times> 'net"

text \<open>\<^verbatim>\<open>location.split(',')\<close>.\<close>

fun split_comma :: "string \<Rightarrow> string list" where
  "split_comma [] = [[]]"
| "split_comma (c # cs) =
     (if c = CHR '','' then [] # split_comma cs
      else (case split_comma cs of
              [] \<Rightarrow> [[c]]
            | p # ps \<Rightarrow> (c # p) # ps))"

text \<open>The common end of the fetch functions: a response with status 200 is decoded and
  handed to the adapter, any other status gives \<^verbatim>\<open>None\<close>.\<close>

definition on_response ::
  "response res \<Rightarrow> (json \<Rightarrow> pyobj option res) \<Rightarrow> pyobj option res" where
  "on_response r convert =
     ebind r (\<lambda>resp.
       if status_code resp = 200 then ebind (json_result resp) convert else Inr None)"

text \<open>\<^verbatim>\<open>_fetch_metno\<close>.\<close>

definition fetch_metno :: "'net http \<Rightarrow> string \<Rightarrow> int \<Rightarrow> 'net \<Rightarrow> pyobj option res \<times> 'net" where
  "fetch_metno http location days net =
     (case split_comma location of
        lat # lon # rest \<Rightarrow>
          (let url = PFmt [PStr ''https://api.met.no/weatherapi/locationforecast/2.0/complete?lat='',
                           PStr lat, PStr ''&lon='', PStr lon];
               (r, net') = http url [(''User-Agent'', ''wttr.in/1.0'')] net
           in (on_response r (\<lambda>j. ebind (convert_metno_to_standard j days) (\<lambda>d. Inr (Some d))), net'))
      | _ \<Rightarrow> (Inl IndexError, net))"

text \<open>\<^verbatim>\<open>_fetch_openweathermap\<close>.\<close>

definition has_key :: "DataSource \<Rightarrow> bool" where
  "has_key source = (case api_key source of None \<Rightarrow> False | Some k \<Rightarrow> k \<noteq> [])"

definition key_text :: "DataSource \<Rightarrow> pyobj" where
  "key_text source = (case api_key source of None \<Rightarrow> PStr ''None'' | Some k \<Rightarrow> PStr k)"

definition fetch_openweathermap ::
  "'net http \<Rightarrow> state \<Rightarrow> string \<Rightarrow> int \<Rightarrow> 'net \<Rightarrow> pyobj option res \<times> 'net" where
  "fetch_openweathermap http st location days net =
     (case lookup st ''openweathermap'' of
        None \<Rightarrow> (Inl KeyError, net)
      | Some source \<Rightarrow>
          if \<not> has_key source then (Inr None, net)
          else (case split_comma location of
                  [lat, lng] \<Rightarrow>
                    (let url = PFmt [PStr (base_url source), PStr ''/onecall?lat='', PStr lat,
                                     PStr ''&lon='', PStr lng, PStr ''&exclude=minutely&appid='',
                                     key_text source];
                         (r, net') = http url [] net
                     in (on_response r (\<lambda>j. convert_openweather_to_standard j days), net'))
                | _ \<Rightarrow> (Inl ValueError, net)))"

text \<open>\<^verbatim>\<open>_fetch_weatherapi\<close>.\<close>

definition fetch_weatherapi ::
  "'net http \<Rightarrow> state \<Rightarrow> string \<Rightarrow> int \<Rightarrow> 'net \<Rightarrow> pyobj option res \<times> 'net" where
  "fetch_weatherapi http st location days net =
     (case lookup st ''weatherapi'' of
        None \<Rightarrow> (Inl KeyError, net)
      | Some source \<Rightarrow>
          if \<not> has_key source then (Inr None, net)
          else
            (let url = PFmt [PStr (base_url source), PStr ''/forecast.json?q='', PStr location,
                             PStr ''&days='', PStr (str_int days), PStr ''&key='', key_text source];
                 (r, net') = http url [] net
             in (on_response r (\<lambda>j. convert_weatherapi_to_standard j days), net')))"

text \<open>\<^verbatim>\<open>_fetch_accuweather\<close>: a search for the location key, then the forecast.\<close>

definition fetch_accuweather ::
  "'net http \<Rightarrow> state \<Rightarrow> string \<Rightarrow> int \<Rightarrow> 'net \<Rightarrow> pyobj option res \<times> 'net" where
  "fetch_accuweather http st location days net =
     (case lookup st ''accuweather'' of
        None \<Rightarrow> (Inl KeyError, net)
      | Some source \<Rightarrow>
          if \<not> has_key source then (Inr None, net)
          else
            (let search_url = PFmt [PStr (base_url source),
                                    PStr ''/locations/v1/cities/geoposition/search?q='',
                                    PStr location, PStr ''&apikey='', key_text source];
                 (r1, net1) = http search_url [] net
             in case r1 of
                  Inl e \<Rightarrow> (Inl e, net1)
                | Inr search_response \<Rightarrow>
                    if status_code search_response \<noteq> 200 then (Inr None, net1)
                    else (case ebind (json_result search_response) (\<lambda>j. py_item j ''Key'') of
                            Inl e \<Rightarrow> (Inl e, net1)
                          | Inr location_key \<Rightarrow>
                              (let forecast_url = PFmt [PStr (base_url source),
                                                        PStr ''/forecasts/v1/daily/5day/'',
                                                        py_str location_key, PStr ''?apikey='',
                                                        key_text source];
                                   (r2, net2) = http forecast_url [] net1
                               in (on_response r2 (\<lambda>j. convert_accuweather_to_standard j days),
                                   net2)))))"

text \<open>\<^verbatim>\<open>_fetch_from_source\<close>: the type of a source is one of the four, so the final
  \<^verbatim>\<open>return None\<close> is never reached.\<close>

definition fetch_from_source ::
  "'net http \<Rightarrow> state \<Rightarrow> DataSource \<Rightarrow> string \<Rightarrow> int \<Rightarrow> 'net \<Rightarrow> pyobj option res \<times> 'net" where
  "fetch_from_source http st source location days net =
     (case type source of
        METNO \<Rightarrow> fetch_metno http location days net
      | OPENWEATHERMAP \<Rightarrow> fetch_openweathermap http st location days net
      | WEATHERAPI \<Rightarrow> fetch_weatherapi http st location days net
      | ACCUWEATHER \<Rightarrow> fetch_accuweather http st location days net)"

text \<open>
  \<^verbatim>\<open>fetch_weather_data\<close>. The result is the returned value, the state of the manager
  and the network after the call. \<^verbatim>\<open>if data:\<close> takes \<^verbatim>\<open>None\<close> and an empty dict for
  a failure; \<^verbatim>\<open>except Exception\<close> takes every exception. The message the handler
  prints is left out.
\<close>

definition fetch_weather_data ::
  "'net http \<Rightarrow> nat \<Rightarrow> state \<Rightarrow> string \<Rightarrow> int \<Rightarrow> 'net \<Rightarrow> pyobj option \<times> state \<times> 'net" where
  "fetch_weather_data http rnd st location days net =
     (case get_available_source rnd st of
        None \<Rightarrow> (None, st, net)
      | Some source \<Rightarrow>
          (let (r, net') = fetch_from_source http st source location days net
           in case r of
                Inr (Some data) \<Rightarrow>
                  if truthy_obj data
                  then (Some data, mark_source_used st (name source), net')
                  else (None, disable_source st (name source), net')
              | Inr None \<Rightarrow> (None, disable_source st (name source), net')
              | Inl e \<Rightarrow> (None, disable_source st (name source), net')))"

section \<open>Properties of a registry\<close>

text \<open>A dict has every key once, and \<^verbatim>\<open>_load_sources\<close> files every source under its
  own name.\<close>

definition registry_ok :: "state \<Rightarrow> bool" where
  "registry_ok st =
     (distinct (map fst (sources st)) \<and> list_all (\<lambda>kv. name (snd kv) = fst kv) (sources st))"

text \<open>The quota invariant of a source, and of every source of a state.\<close>

definition within_quota :: "DataSource \<Rightarrow> bool" where
  "within_quota s = (0 \<le> current_usage s \<and> current_usage s \<le> rate_limit s)"

definition quota_inv :: "state \<Rightarrow> bool" where
  "quota_inv st = list_all (\<lambda>kv. within_quota (snd kv)) (sources st)"

text \<open>
  Runs in which every use is gated: \<^verbatim>\<open>mark_source_used\<close> is called for a source only
  after the check of \<^verbatim>\<open>get_available_source\<close> has passed for it in the same state
  (as \<^verbatim>\<open>fetch_weather_data\<close> does). A check alone changes nothing, so it is no
  step of its own. Sweeps, disables and wake-ups may come in between.
\<close>

inductive gated :: "state \<Rightarrow> state \<Rightarrow> bool" where
  gated_refl: "gated st st"
| gated_use:
    "gated st st' \<Longrightarrow> lookup st' n = Some s \<Longrightarrow> is_available s \<Longrightarrow> gated st (mark_source_used st' n)"
| gated_sweep: "gated st st' \<Longrightarrow> gated st (reset_usage st')"
| gated_disable: "gated st st' \<Longrightarrow> gated st (disable_source st' n)"
| gated_wake: "gated st st' \<Longrightarrow> i < length (sleepers st') \<Longrightarrow> gated st (reenable st' i)"
| gated_tick: "gated st st' \<Longrightarrow> gated st (st'\<lparr>clock := clock st' + d\<rparr>)"

section \<open>Reading a result\<close>

text \<open>\<^verbatim>\<open>out['data']['weather']\<close> and \<^verbatim>\<open>out['data']['current_condition'][0]\<close> of a
  normalized result, and a field of a record an adapter returned.\<close>

definition weather_list :: "pyobj \<Rightarrow> pyobj list" where
  "weather_list out =
     (case field out ''data'' of
        Some d \<Rightarrow> (case field d ''weather'' of Some (PList ws) \<Rightarrow> ws | _ \<Rightarrow> [])
      | None \<Rightarrow> [])"

definition current_condition :: "pyobj \<Rightarrow> pyobj option" where
  "current_condition out =
     (case field out ''data'' of
        Some d \<Rightarrow> (case field d ''current_condition'' of Some (PList (c # cs)) \<Rightarrow> Some c | _ \<Rightarrow> None)
      | None \<Rightarrow> None)"

fun field_of :: "pyobj res \<Rightarrow> string \<Rightarrow> pyobj option" where
  "field_of (Inr d) k = field d k"
| "field_of (Inl e) k = None"

fun weather_of :: "pyobj option res \<Rightarrow> pyobj list" where
  "weather_of (Inr (Some out)) = weather_list out"
| "weather_of _ = []"

text \<open>The text of a rounded number: \<^verbatim>\<open>str(int(round(r, 0)))\<close>.\<close>

definition shown :: "rat \<Rightarrow> pyobj" where
  "shown r = PStr (str_int (py_round r))"

section \<open>Scenarios\<close>

text \<open>An environment without API keys: only MET Norway is registered.\<close>

definition no_keys :: "string \<Rightarrow> string option" where
  "no_keys var = None"

text \<open>MET Norway is disabled at time 0 and again at time 200; at time 300 the thread of
  the first disable wakes up.\<close>

definition disabled_once :: state where
  "disabled_once = disable_source (init no_keys 0) ''metno''"

definition disabled_twice :: state where
  "disabled_twice = disable_source (disabled_once\<lparr>clock := 200\<rparr>) ''metno''"

definition first_thread_woke :: state where
  "first_thread_woke = reenable (disabled_twice\<lparr>clock := 300\<rparr>) 0"

text \<open>Two networks that count the requests they receive: one answers every request
  with status 200 and an empty JSON object, the other one fails every request.\<close>

definition always_ok :: "nat http" where
  "always_ok url headers requests =
     (Inr \<lparr>status_code = 200, json_result = Inr (JDict [])\<rparr>, Suc requests)"

definition always_down :: "nat http" where
  "always_down url headers requests = (Inl RequestException, Suc requests)"

text \<open>An OpenWeatherMap payload with two days of forecast.\<close>

definition two_days :: json where
  "two_days =
     JDict [(''current'', JDict []),
            (''daily'', JList [JDict [(''dt'', JInt 1)], JDict [(''dt'', JInt 2)]])]"

section \<open>Cooling down\<close>

text \<open>While the clock is before \<open>T\<close>, a source that is disabled and has no thread due
  before \<open>T\<close> stays disabled.\<close>

definition cooling :: "string \<Rightarrow> rat \<Rightarrow> rat \<Rightarrow> state \<Rightarrow> bool" where
  "cooling n t0 T st =
     (t0 \<le> clock st \<and> list_all (\<lambda>sl. fst sl = n \<longrightarrow> T \<le> snd sl) (sleepers st) \<and>
      (clock st < T \<longrightarrow> \<not> is_enabled st n))"

section \<open>Auxiliary facts\<close>

lemma ebind_Inr [simp]: "ebind (Inr x) f = f x"
  by (simp add: ebind_def)

lemma ebind_Inl [simp]: "ebind (Inl e) f = Inl e"
  by (simp add: ebind_def)

text \<open>The continuation is simplified only once the first computation is known.\<close>

lemma ebind_weak_cong: "m = m' \<Longrightarrow> ebind m f = ebind m' f"
  by simp

lemma ebind_eq_Inr: "ebind m f = Inr y \<longleftrightarrow> (\<exists>x. m = Inr x \<and> f x = Inr y)"
  by (cases m) simp_all

lemma floor_half: "\<lfloor>of_int k + (1::rat) / 2\<rfloor> = k"
  by (rule floor_unique) simp_all

lemma py_round_half: "py_round (of_int k + 1 / 2) = (if even k then k else k + 1)"
  by (simp add: py_round_def Let_def floor_half)

lemma py_round_of_int [simp]: "py_round (of_int k) = k"
  by (simp add: py_round_def Let_def)

lemma py_trunc_of_int [simp]: "py_trunc (of_int k) = k"
  by (simp add: py_trunc_def)

lemma py_round_0 [simp]: "py_round 0 = 0"
  using py_round_of_int [of 0] by simp

lemma py_round_numeral [simp]: "py_round (numeral n) = numeral n"
  using py_round_of_int [of "numeral n"] by simp

lemma py_trunc_0 [simp]: "py_trunc 0 = 0"
  using py_trunc_of_int [of 0] by simp

lemma py_trunc_numeral [simp]: "py_trunc (numeral n) = numeral n"
  using py_trunc_of_int [of "numeral n"] by simp

lemma digit_chars:
  "digit_char 0 = CHR ''0''" "digit_char 1 = CHR ''1''" "digit_char 2 = CHR ''2''" "digit_char 3 = CHR ''3''" "digit_char 4 = CHR ''4''" "digit_char 5 = CHR ''5''" "digit_char 6 = CHR ''6''" "digit_char 7 = CHR ''7''" "digit_char 8 = CHR ''8''" "digit_char 9 = CHR ''9''"
  by (simp_all add: char_of_def bit_Suc_0_iff)

lemma digit_char_Suc_0: "digit_char (Suc 0) = CHR ''1''"
  using digit_chars(2) by simp

lemma str_int_values:
  "str_int 0 = ''0''"
  "str_int 1 = ''1''"
  "str_int 2 = ''2''"
  "str_int 10 = ''10''"
  "str_int 20 = ''20''"
  "str_int 22 = ''22''"
  "str_int 32 = ''32''"
  "str_int 36 = ''36''"
  "str_int 50 = ''50''"
  "str_int 68 = ''68''"
  "str_int 69 = ''69''"
  "str_int 113 = ''113''"
  "str_int 176 = ''176''"
  "str_int 212 = ''212''"
  "str_int 1000 = ''1000''"
  "str_int 10000 = ''10000''"
  by (simp_all add: str_int_def digit_chars digit_char_Suc_0 del: digit_char.simps)

lemma str_round_float_shown: "str_round_float r = shown r"
  by (simp add: str_round_float_def shown_def)

lemma str_round_shown: "num_of x = Inr n \<Longrightarrow> str_round x = Inr (shown (num_val n))"
  by (cases n) (simp_all add: str_round_def shown_def)

lemma map_of_update_source:
  "map_of (update_source n f kvs) m = (if m = n then map_option f (map_of kvs m) else map_of kvs m)"
  by (induction kvs) (auto simp: update_source_def)

lemma keys_update_source [simp]: "map fst (update_source n f kvs) = map fst kvs"
  by (induction kvs) (auto simp: update_source_def)

lemma lookup_mark:
  "lookup (mark_source_used st n) m =
     (if m = n then map_option (\<lambda>s. s\<lparr>current_usage := current_usage s + 1\<rparr>) (lookup st m)
      else lookup st m)"
proof (cases "n \<in> fst ` set (sources st)")
  case True
  then show ?thesis by (simp add: mark_source_used_def lookup_def map_of_update_source)
next
  case False
  then have "map_of (sources st) n = None" by (simp add: map_of_eq_None_iff)
  with False show ?thesis by (simp add: mark_source_used_def lookup_def)
qed

lemma lookup_disable:
  "lookup (disable_source st n) m =
     (if m = n then map_option (\<lambda>s. s\<lparr>enabled := False\<rparr>) (lookup st m) else lookup st m)"
proof (cases "n \<in> fst ` set (sources st)")
  case True
  then show ?thesis by (simp add: disable_source_def lookup_def map_of_update_source)
next
  case False
  then have "map_of (sources st) n = None" by (simp add: map_of_eq_None_iff)
  with False show ?thesis by (simp add: disable_source_def lookup_def)
qed

lemma lookup_registered:
  "registry_ok st \<Longrightarrow> s \<in> snd ` set (sources st) \<Longrightarrow> lookup st (name s) = Some s"
  unfolding registry_ok_def lookup_def
  by (auto simp: list_all_iff)

lemma available_member:
  "get_available_source rnd st = Some s \<Longrightarrow> s \<in> set (available_sources st)"
  by (auto simp: get_available_source_def Let_def split: if_splits)

lemma available_iff:
  "s \<in> set (available_sources st) \<longleftrightarrow>
     s \<in> snd ` set (sources st) \<and> enabled s \<and> current_usage s < rate_limit s"
  by (auto simp: available_sources_def is_available_def)

section \<open>Names that are not registered\<close>

text \<open>
  Claim C10. \<^verbatim>\<open>disable_source\<close> and \<^verbatim>\<open>mark_source_used\<close> with a name that is no key
  of \<^verbatim>\<open>self.sources\<close> raise nothing and return the state they were given: the flag, the
  usage counter and the time of the last reset of every registered source are as before,
  and no thread is started (the list of sleeping threads is part of the state).
\<close>

theorem unknown_name_is_noop:
  "n \<notin> fst ` set (sources st) \<Longrightarrow>
     disable_source st n = st \<and> mark_source_used st n = st"
  by (simp add: disable_source_def mark_source_used_def)

theorem unknown_name_is_noop_witness:
  "disable_source (init no_keys 0) ''nosuch'' = init no_keys 0 \<and>
   mark_source_used (init no_keys 0) ''nosuch'' = init no_keys 0 \<and>
   sleepers (disable_source (init no_keys 0) ''nosuch'') = []"
  using unknown_name_is_noop [of "''nosuch''" "init no_keys 0"]
  by (simp add: init_def load_sources_def keyed_source_def no_keys_def)

section \<open>Selection\<close>

text \<open>
  Claim C2. \<^verbatim>\<open>get_available_source\<close> returns \<^verbatim>\<open>None\<close> if and only if no registered
  source is enabled with its usage below its rate limit. A source it returns is one of
  these eligible sources, and every eligible source is returned for some draw of the random
  number generator. (That the draw is uniform is a property of the generator, which is a
  parameter here.)
\<close>

theorem get_available_source_eligible:
  "(get_available_source rnd st = None \<longleftrightarrow>
      {s \<in> snd ` set (sources st). enabled s \<and> current_usage s < rate_limit s} = {}) \<and>
   (\<forall>s. get_available_source rnd st = Some s \<longrightarrow>
      s \<in> snd ` set (sources st) \<and> enabled s \<and> current_usage s < rate_limit s) \<and>
   (\<forall>s. s \<in> snd ` set (sources st) \<and> enabled s \<and> current_usage s < rate_limit s \<longrightarrow>
      (\<exists>r. get_available_source r st = Some s))"
proof (intro conjI allI impI)
  have "get_available_source rnd st = None \<longleftrightarrow> available_sources st = []"
    by (simp add: get_available_source_def Let_def)
  also have "\<dots> \<longleftrightarrow> set (available_sources st) = {}"
    by simp
  also have "set (available_sources st) =
      {s \<in> snd ` set (sources st). enabled s \<and> current_usage s < rate_limit s}"
    using available_iff by blast
  finally show "get_available_source rnd st = None \<longleftrightarrow>
      {s \<in> snd ` set (sources st). enabled s \<and> current_usage s < rate_limit s} = {}" .
next
  fix s assume "get_available_source rnd st = Some s"
  then have "s \<in> set (available_sources st)" by (rule available_member)
  then show "s \<in> snd ` set (sources st)" "enabled s" "current_usage s < rate_limit s"
    by (simp_all add: available_iff)
next
  fix s assume "s \<in> snd ` set (sources st) \<and> enabled s \<and> current_usage s < rate_limit s"
  then have "s \<in> set (available_sources st)" by (simp add: available_iff)
  then obtain i where i: "i < length (available_sources st)" "available_sources st ! i = s"
    by (auto simp: in_set_conv_nth)
  then have "get_available_source i st = Some s"
    by (auto simp: get_available_source_def Let_def)
  then show "\<exists>r. get_available_source r st = Some s" ..
qed

lemma init_none: "init no_keys t =
  \<lparr>sources = [(''metno'', new_source ''metno'' METNO ''https://api.met.no'' None 5000)],
   sleepers = [], clock = t\<rparr>"
  by (simp add: init_def load_sources_def keyed_source_def no_keys_def)

theorem get_available_source_eligible_witness:
  "get_available_source 7 (init no_keys 0) \<noteq> None"
proof -
  have "new_source ''metno'' METNO ''https://api.met.no'' None 5000
          \<in> {s \<in> snd ` set (sources (init no_keys 0)).
               enabled s \<and> current_usage s < rate_limit s}"
    by (simp add: init_none new_source_def)
  then show ?thesis
    using get_available_source_eligible [of 7 "init no_keys 0"] by blast
qed

section \<open>Compass points\<close>

lemma half_turn: "(2 * of_int k + 1) * 11.25 / 22.5 = (of_int k + 1 / 2 :: rat)"
  by (simp add: field_simps)

text \<open>
  Claim C9. In \<^verbatim>\<open>_degrees_to_16_point\<close> a direction that is an odd multiple of 11.25
  degrees lies exactly between two compass points, and \<^verbatim>\<open>round\<close> takes the one with the
  even index: 11.25 gives N (index 0), 33.75 gives NE (index 2), 348.75 gives N (index 16,
  which is 0 modulo 16). For the \<open>k\<close>-th such direction the index is \<open>k\<close> when \<open>k\<close> is
  even and \<open>k + 1\<close> when it is odd, modulo 16.
\<close>

theorem half_ties_round_to_even:
  "degrees_to_16_point (JFloat 11.25) = Inr ''N'' \<and>
   degrees_to_16_point (JFloat 33.75) = Inr ''NE'' \<and>
   degrees_to_16_point (JFloat 348.75) = Inr ''N'' \<and>
   degrees_to_16_point (JFloat ((2 * of_int k + 1) * 11.25)) =
     Inr (directions ! nat ((if even k then k else k + 1) mod 16))"
proof (intro conjI)
  show "degrees_to_16_point (JFloat 11.25) = Inr ''N''" by code_simp
  show "degrees_to_16_point (JFloat 33.75) = Inr ''NE''" by code_simp
  show "degrees_to_16_point (JFloat 348.75) = Inr ''N''" by code_simp
  show "degrees_to_16_point (JFloat ((2 * of_int k + 1) * 11.25)) =
     Inr (directions ! nat ((if even k then k else k + 1) mod 16))"
    unfolding degrees_to_16_point_def
    by (simp only: num_of.simps ebind_Inr num_val.simps half_turn py_round_half Let_def)
qed

section \<open>The quota invariant\<close>

lemma list_all_update_source:
  "list_all (\<lambda>kv. P (snd kv)) kvs \<Longrightarrow> (\<And>s. (n, s) \<in> set kvs \<Longrightarrow> P s \<Longrightarrow> P (f s)) \<Longrightarrow>
   list_all (\<lambda>kv. P (snd kv)) (update_source n f kvs)"
  by (induction kvs) (auto simp: update_source_def)

lemma quota_inv_mark:
  assumes "distinct (map fst (sources st))" "quota_inv st"
    "lookup st n = Some s" "is_available s"
  shows "quota_inv (mark_source_used st n)"
proof -
  have "\<And>s'. (n, s') \<in> set (sources st) \<Longrightarrow> s' = s"
    using assms(1,3) by (simp add: lookup_def)
  then have "\<And>s'. (n, s') \<in> set (sources st) \<Longrightarrow> within_quota s' \<Longrightarrow>
      within_quota (s'\<lparr>current_usage := current_usage s' + 1\<rparr>)"
    using assms(4) by (auto simp: within_quota_def is_available_def)
  then show ?thesis
    using assms(2) by (auto simp: quota_inv_def mark_source_used_def intro: list_all_update_source)
qed

lemma quota_inv_reset: "quota_inv st \<Longrightarrow> quota_inv (reset_usage st)"
  by (auto simp: quota_inv_def reset_usage_def list_all_iff reset_source_def within_quota_def)

lemma quota_inv_disable: "quota_inv st \<Longrightarrow> quota_inv (disable_source st n)"
  by (auto simp: quota_inv_def disable_source_def within_quota_def intro: list_all_update_source)

lemma quota_inv_reenable: "quota_inv st \<Longrightarrow> quota_inv (reenable st i)"
  by (auto simp: quota_inv_def reenable_def within_quota_def intro: list_all_update_source)

lemma keys_mark [simp]: "map fst (sources (mark_source_used st n)) = map fst (sources st)"
  by (simp add: mark_source_used_def)

lemma keys_disable [simp]: "map fst (sources (disable_source st n)) = map fst (sources st)"
  by (simp add: disable_source_def)

lemma keys_reenable [simp]: "map fst (sources (reenable st i)) = map fst (sources st)"
  by (simp add: reenable_def)

lemma keys_reset [simp]: "map fst (sources (reset_usage st)) = map fst (sources st)"
  by (simp add: reset_usage_def comp_def)

lemma gated_keys: "gated st st' \<Longrightarrow> map fst (sources st') = map fst (sources st)"
  by (induction rule: gated.induct) simp_all

lemma gated_quota_inv:
  "gated st st' \<Longrightarrow> distinct (map fst (sources st)) \<Longrightarrow> quota_inv st \<Longrightarrow> quota_inv st'"
proof (induction rule: gated.induct)
  case (gated_use st st' n s)
  then show ?case by (simp add: quota_inv_mark gated_keys)
qed (simp_all add: quota_inv_reset quota_inv_disable quota_inv_reenable, simp add: quota_inv_def)

text \<open>
  Claim C5. In a dict whose sources all have \<open>0 \<le> usage \<le> quota\<close>, every run of uses,
  sweeps, disables and wake-ups in which each \<^verbatim>\<open>mark_source_used\<close> follows a passed
  eligibility check of the same source keeps \<open>0 \<le> usage \<le> quota\<close> for every source.
\<close>

theorem usage_within_quota:
  assumes "distinct (map fst (sources st))" and "quota_inv st" and "gated st st'"
  shows "\<forall>n s. lookup st' n = Some s \<longrightarrow> 0 \<le> current_usage s \<and> current_usage s \<le> rate_limit s"
proof (intro allI impI)
  fix n s assume "lookup st' n = Some s"
  then have "(n, s) \<in> set (sources st')" by (simp add: lookup_def map_of_SomeD)
  moreover have "quota_inv st'" using assms by (simp add: gated_quota_inv)
  ultimately show "0 \<le> current_usage s \<and> current_usage s \<le> rate_limit s"
    by (auto simp: quota_inv_def list_all_iff within_quota_def)
qed

lemma init_none_lookup:
  "lookup (init no_keys t) ''metno'' = Some (new_source ''metno'' METNO ''https://api.met.no'' None 5000)"
  by (simp add: init_none lookup_def)

theorem usage_within_quota_witness:
  "lookup (mark_source_used (init no_keys 0) ''metno'') ''metno'' =
     Some ((new_source ''metno'' METNO ''https://api.met.no'' None 5000)\<lparr>current_usage := 1\<rparr>) \<and>
   (1::int) \<le> 5000"
proof -
  let ?st = "init no_keys 0"
  let ?s = "new_source ''metno'' METNO ''https://api.met.no'' None 5000"
  have d: "distinct (map fst (sources ?st))" by (simp add: init_none)
  have q: "quota_inv ?st" by (simp add: init_none quota_inv_def within_quota_def new_source_def)
  have "is_available ?s" by (simp add: is_available_def new_source_def)
  then have g: "gated ?st (mark_source_used ?st ''metno'')"
    using gated_use [OF gated_refl init_none_lookup] by simp
  have l: "lookup (mark_source_used ?st ''metno'') ''metno'' = Some (?s\<lparr>current_usage := 1\<rparr>)"
    by (simp add: lookup_mark init_none_lookup new_source_def)
  show ?thesis using usage_within_quota [OF d q g] l by (simp add: new_source_def)
qed

section \<open>The circuit breaker\<close>

lemma is_enabled_clock [simp]: "is_enabled (st\<lparr>clock := c\<rparr>) n = is_enabled st n"
  by (simp add: is_enabled_def lookup_def)

lemma map_of_map_values:
  "map_of (map (\<lambda>kv. (fst kv, f (snd kv))) kvs) n = map_option f (map_of kvs n)"
  by (induction kvs) auto

lemma lookup_reset: "lookup (reset_usage st) n = map_option (reset_source (clock st)) (lookup st n)"
  by (simp add: lookup_def reset_usage_def map_of_map_values)

lemma is_enabled_reset [simp]: "is_enabled (reset_usage st) n = is_enabled st n"
  by (cases "lookup st n") (simp_all add: is_enabled_def lookup_reset reset_source_def)

lemma is_enabled_mark [simp]: "is_enabled (mark_source_used st m) n = is_enabled st n"
  by (simp add: is_enabled_def lookup_mark split: option.splits)

lemma is_enabled_disable: "is_enabled (disable_source st m) n = (m \<noteq> n \<and> is_enabled st n)"
  by (simp add: is_enabled_def lookup_disable split: option.splits)

lemma lookup_reenable:
  "lookup (reenable st i) n =
     (if fst (sleepers st ! i) = n then map_option (\<lambda>s. s\<lparr>enabled := True\<rparr>) (lookup st n)
      else lookup st n)"
  by (simp add: reenable_def lookup_def map_of_update_source)

lemma is_enabled_reenable:
  "is_enabled (reenable st i) n =
     (if fst (sleepers st ! i) = n then n \<in> fst ` set (sources st) else is_enabled st n)"
proof (cases "lookup st n")
  case None
  then have "n \<notin> fst ` set (sources st)" by (simp add: lookup_def map_of_eq_None_iff)
  with None show ?thesis by (simp add: is_enabled_def lookup_reenable)
next
  case (Some s)
  then have "n \<in> fst ` set (sources st)"
    by (metis lookup_def map_of_eq_None_iff option.distinct(1))
  with Some show ?thesis by (simp add: is_enabled_def lookup_reenable)
qed

lemma rest_reset [simp]:
  "clock (reset_usage st) = clock st" "sleepers (reset_usage st) = sleepers st"
  by (simp_all add: reset_usage_def)

lemma rest_mark [simp]:
  "clock (mark_source_used st m) = clock st" "sleepers (mark_source_used st m) = sleepers st"
  by (simp_all add: mark_source_used_def)

lemma clock_disable [simp]: "clock (disable_source st m) = clock st"
  by (simp add: disable_source_def)

lemma sleepers_disable:
  "sleepers (disable_source st m) =
     (if m \<in> fst ` set (sources st) then sleepers st @ [(m, clock st + 300)] else sleepers st)"
  by (simp add: disable_source_def)

lemma step_keys: "step st st' \<Longrightarrow> map fst (sources st') = map fst (sources st)"
  by (induction rule: step.induct) simp_all

lemma steps_keys: "steps st st' \<Longrightarrow> map fst (sources st') = map fst (sources st)"
  by (induction rule: steps.induct) (simp_all add: step_keys)

lemma cooling_step:
  assumes "step st st'" and "cooling n t0 (t0 + 300) st"
  shows "cooling n t0 (t0 + 300) st'"
  using assms
proof (induction rule: step.induct)
  case (tick d st)
  then show ?case by (auto simp: cooling_def)
next
  case (wake i st)
  have sub: "set (take i (sleepers st) @ drop (Suc i) (sleepers st)) \<subseteq> set (sleepers st)"
    by (auto dest: in_set_takeD in_set_dropD)
  have mem: "sleepers st ! i \<in> set (sleepers st)"
    using wake.hyps(1) by simp
  have all: "\<And>sl. sl \<in> set (sleepers st) \<Longrightarrow> fst sl = n \<Longrightarrow> t0 + 300 \<le> snd sl"
    using wake.prems by (simp add: cooling_def list_all_iff)
  have due: "fst (sleepers st ! i) = n \<Longrightarrow> t0 + 300 \<le> clock st"
    using all [OF mem] wake.hyps(2) by simp
  have c: "clock (reenable st i) = clock st"
    by (simp add: reenable_def)
  have s: "sleepers (reenable st i) = take i (sleepers st) @ drop (Suc i) (sleepers st)"
    by (simp add: reenable_def)
  have e: "clock st < t0 + 300 \<Longrightarrow> \<not> is_enabled (reenable st i) n"
    using due wake.prems by (auto simp: is_enabled_reenable cooling_def)
  have "t0 \<le> clock st" using wake.prems by (simp add: cooling_def)
  moreover have "list_all (\<lambda>sl. fst sl = n \<longrightarrow> t0 + 300 \<le> snd sl) (sleepers (reenable st i))"
    unfolding s list_all_iff using sub all by blast
  ultimately show ?case
    using e by (simp add: cooling_def c)
next
  case (sweep st)
  then show ?case by (simp add: cooling_def)
next
  case (used st m)
  then show ?case by (simp add: cooling_def)
next
  case (disabled st m)
  then show ?case by (auto simp: cooling_def is_enabled_disable sleepers_disable)
qed

lemma cooling_steps:
  "steps st st' \<Longrightarrow> cooling n t0 (t0 + 300) st \<Longrightarrow> cooling n t0 (t0 + 300) st'"
  by (induction rule: steps.induct) (auto intro: cooling_step)

text \<open>
  Claim C4, amended. For a registered source \<open>n\<close>, \<^verbatim>\<open>disable_source\<close> clears the flag
  at once and starts exactly one thread, which sleeps until 300 seconds after the call,
  whatever happened before (no growth, no cap). When a sleeping thread of \<open>n\<close> wakes up, in
  any state reached later, \<open>n\<close> is enabled afterwards. If no thread of an earlier disable
  of \<open>n\<close> is still asleep at the call, then \<open>n\<close> stays disabled, whatever else happens,
  as long as the clock is below the time of the call plus 300.
\<close>

theorem disable_source_cooldown:
  assumes "n \<in> fst ` set (sources st)"
  shows "\<not> is_enabled (disable_source st n) n \<and>
     sleepers (disable_source st n) = sleepers st @ [(n, clock st + 300)] \<and>
     (\<forall>st' i. steps (disable_source st n) st' \<and> i < length (sleepers st') \<and>
        fst (sleepers st' ! i) = n \<longrightarrow> is_enabled (reenable st' i) n) \<and>
     (list_all (\<lambda>sl. fst sl \<noteq> n) (sleepers st) \<longrightarrow>
        (\<forall>st'. steps (disable_source st n) st' \<and> clock st' < clock st + 300 \<longrightarrow>
           \<not> is_enabled st' n))"
proof (intro conjI allI impI)
  show "\<not> is_enabled (disable_source st n) n"
    by (simp add: is_enabled_disable)
  show "sleepers (disable_source st n) = sleepers st @ [(n, clock st + 300)]"
    using assms by (simp add: disable_source_def)
next
  fix st' i
  assume a: "steps (disable_source st n) st' \<and> i < length (sleepers st') \<and>
      fst (sleepers st' ! i) = n"
  then have "map fst (sources st') = map fst (sources st)"
    using steps_keys [of "disable_source st n" st'] by simp
  then have "n \<in> fst ` set (sources st')"
    using assms by (metis set_map)
  then show "is_enabled (reenable st' i) n"
    using a by (simp add: is_enabled_reenable)
next
  fix st'
  assume fresh: "list_all (\<lambda>sl. fst sl \<noteq> n) (sleepers st)"
    and run: "steps (disable_source st n) st' \<and> clock st' < clock st + 300"
  have "cooling n (clock st) (clock st + 300) (disable_source st n)"
    using assms fresh
    by (auto simp: cooling_def is_enabled_disable sleepers_disable list_all_iff)
  then have "cooling n (clock st) (clock st + 300) st'"
    using run by (auto intro: cooling_steps)
  then show "\<not> is_enabled st' n"
    using run by (simp add: cooling_def)
qed

text \<open>
  Claim C4 as it is stated fails when an earlier disable of the same source is still
  pending: MET Norway is disabled at time 0 and again at time 200; at time 300, only 100
  seconds after the second disable, the thread of the first one wakes up and the source is
  enabled.
\<close>

lemma disabled_once_eq:
  "disabled_once =
     \<lparr>sources = [(''metno'', (new_source ''metno'' METNO ''https://api.met.no'' None 5000)\<lparr>enabled := False\<rparr>)],
      sleepers = [(''metno'', 300)], clock = 0\<rparr>"
  by (simp add: disabled_once_def init_none disable_source_def update_source_def)

lemma disabled_twice_eq:
  "disabled_twice =
     \<lparr>sources = [(''metno'', (new_source ''metno'' METNO ''https://api.met.no'' None 5000)\<lparr>enabled := False\<rparr>)],
      sleepers = [(''metno'', 300), (''metno'', 500)], clock = 200\<rparr>"
  by (simp add: disabled_twice_def disabled_once_eq disable_source_def update_source_def)

lemma first_thread_woke_eq:
  "first_thread_woke =
     \<lparr>sources = [(''metno'', (new_source ''metno'' METNO ''https://api.met.no'' None 5000)\<lparr>enabled := True\<rparr>)],
      sleepers = [(''metno'', 500)], clock = 300\<rparr>"
  by (simp add: first_thread_woke_def disabled_twice_eq reenable_def update_source_def)

theorem early_reenable_counterexample:
  "steps disabled_twice first_thread_woke \<and>
   clock first_thread_woke < clock (disabled_once\<lparr>clock := 200\<rparr>) + 300 \<and>
   is_enabled first_thread_woke ''metno''"
proof (intro conjI)
  have "step disabled_twice (disabled_twice\<lparr>clock := clock disabled_twice + 100\<rparr>)"
    by (rule tick) simp
  then have s1: "step disabled_twice (disabled_twice\<lparr>clock := 300\<rparr>)"
    by (simp add: disabled_twice_eq)
  have "step (disabled_twice\<lparr>clock := 300\<rparr>) (reenable (disabled_twice\<lparr>clock := 300\<rparr>) 0)"
    by (rule wake) (simp_all add: disabled_twice_eq)
  then have s2: "step (disabled_twice\<lparr>clock := 300\<rparr>) first_thread_woke"
    by (simp add: first_thread_woke_def)
  show "steps disabled_twice first_thread_woke"
    using steps_step [OF steps_step [OF steps_refl s1] s2] .
  show "clock first_thread_woke < clock (disabled_once\<lparr>clock := 200\<rparr>) + 300"
    by (simp add: first_thread_woke_eq)
  show "is_enabled first_thread_woke ''metno''"
    by (simp add: first_thread_woke_eq is_enabled_def lookup_def)
qed

theorem disable_source_cooldown_witness:
  "\<not> is_enabled disabled_once ''metno'' \<and>
   sleepers disabled_once = [(''metno'', 300)] \<and>
   \<not> is_enabled (disabled_once\<lparr>clock := 200\<rparr>) ''metno'' \<and>
   is_enabled (reenable (disabled_once\<lparr>clock := 300\<rparr>) 0) ''metno''"
proof -
  let ?st = "init no_keys 0"
  have reg: "''metno'' \<in> fst ` set (sources ?st)" by (simp add: init_none)
  have fresh: "list_all (\<lambda>sl. fst sl \<noteq> ''metno'') (sleepers ?st)" by (simp add: init_none)
  have t: "\<And>d. 0 \<le> d \<Longrightarrow> steps disabled_once (disabled_once\<lparr>clock := d\<rparr>)"
  proof -
    fix d :: rat assume "0 \<le> d"
    then have "step disabled_once (disabled_once\<lparr>clock := clock disabled_once + d\<rparr>)"
      by (rule tick)
    then have "step disabled_once (disabled_once\<lparr>clock := d\<rparr>)"
      by (simp add: disabled_once_eq)
    then show "steps disabled_once (disabled_once\<lparr>clock := d\<rparr>)"
      using steps_step [OF steps_refl] by blast
  qed
  have c: "clock (disabled_once\<lparr>clock := 200\<rparr>) < clock ?st + 300" by (simp add: init_none)
  have i: "0 < length (sleepers (disabled_once\<lparr>clock := 300\<rparr>)) \<and>
      fst (sleepers (disabled_once\<lparr>clock := 300\<rparr>) ! 0) = ''metno''"
    by (simp add: disabled_once_eq)
  note th = disable_source_cooldown [OF reg, folded disabled_once_def]
  have "sleepers disabled_once = [(''metno'', 300)]" by (simp add: disabled_once_eq)
  moreover have "\<not> is_enabled disabled_once ''metno''" using th by blast
  moreover have "\<not> is_enabled (disabled_once\<lparr>clock := 200\<rparr>) ''metno''"
    using th fresh t [of 200] c by simp
  moreover have "is_enabled (reenable (disabled_once\<lparr>clock := 300\<rparr>) 0) ''metno''"
    using th t [of 300] i by simp
  ultimately show ?thesis by blast
qed

section \<open>Dispatch\<close>

lemma selected_registered:
  assumes "registry_ok st" "get_available_source rnd st = Some source"
  shows "lookup st (name source) = Some source"
proof -
  have "source \<in> set (available_sources st)" using assms(2) by (rule available_member)
  then have "source \<in> snd ` set (sources st)" by (simp add: available_iff)
  with assms(1) show ?thesis by (rule lookup_registered)
qed

text \<open>
  Claim C1. Let the sources be filed under their names. A call of
  \<^verbatim>\<open>fetch_weather_data\<close> that finds no available source returns \<^verbatim>\<open>None\<close> and touches
  neither the manager nor the network. Otherwise it calls \<^verbatim>\<open>_fetch_from_source\<close> once,
  for the selected source: the network after the call is the network after that one
  fetch. If the fetch returns a non-empty result, the call returns it and the usage
  counter of the selected source is one higher; if the fetch returns \<^verbatim>\<open>None\<close>, an empty
  result or raises, the call returns \<^verbatim>\<open>None\<close>, the selected source is disabled and one
  re-enable thread is started. Every other source is as before.
\<close>

theorem fetch_weather_data_outcome:
  assumes "registry_ok st"
  shows
    "(get_available_source rnd st = None \<longrightarrow>
        fetch_weather_data http rnd st location days net = (None, st, net)) \<and>
     (\<forall>source r net'.
        get_available_source rnd st = Some source \<and>
        fetch_from_source http st source location days net = (r, net') \<longrightarrow>
        (\<forall>data. r = Inr (Some data) \<and> truthy_obj data \<longrightarrow>
           fetch_weather_data http rnd st location days net =
             (Some data, mark_source_used st (name source), net') \<and>
           lookup (mark_source_used st (name source)) (name source) =
             Some (source\<lparr>current_usage := current_usage source + 1\<rparr>) \<and>
           (\<forall>m. m \<noteq> name source \<longrightarrow>
              lookup (mark_source_used st (name source)) m = lookup st m) \<and>
           sleepers (mark_source_used st (name source)) = sleepers st) \<and>
        ((\<forall>data. r = Inr (Some data) \<longrightarrow> \<not> truthy_obj data) \<longrightarrow>
           fetch_weather_data http rnd st location days net =
             (None, disable_source st (name source), net') \<and>
           lookup (disable_source st (name source)) (name source) =
             Some (source\<lparr>enabled := False\<rparr>) \<and>
           (\<forall>m. m \<noteq> name source \<longrightarrow>
              lookup (disable_source st (name source)) m = lookup st m) \<and>
           sleepers (disable_source st (name source)) =
             sleepers st @ [(name source, clock st + 300)]))"
proof (intro conjI allI impI)
  assume "get_available_source rnd st = None"
  then show "fetch_weather_data http rnd st location days net = (None, st, net)"
    by (simp add: fetch_weather_data_def)
next
  fix source r net' data
  assume sel: "get_available_source rnd st = Some source \<and>
      fetch_from_source http st source location days net = (r, net')"
    and ok: "r = Inr (Some data) \<and> truthy_obj data"
  have reg: "lookup st (name source) = Some source"
    using selected_registered [OF assms] sel by blast
  show "fetch_weather_data http rnd st location days net =
      (Some data, mark_source_used st (name source), net')"
    using sel ok by (simp add: fetch_weather_data_def)
  show "lookup (mark_source_used st (name source)) (name source) =
      Some (source\<lparr>current_usage := current_usage source + 1\<rparr>)"
    using reg by (simp add: lookup_mark)
  show "sleepers (mark_source_used st (name source)) = sleepers st"
    by simp
  fix m assume "m \<noteq> name source"
  then show "lookup (mark_source_used st (name source)) m = lookup st m"
    by (simp add: lookup_mark)
next
  fix source r net'
  assume sel: "get_available_source rnd st = Some source \<and>
      fetch_from_source http st source location days net = (r, net')"
    and bad: "\<forall>data. r = Inr (Some data) \<longrightarrow> \<not> truthy_obj data"
  have reg: "lookup st (name source) = Some source"
    using selected_registered [OF assms] sel by blast
  then have key: "name source \<in> fst ` set (sources st)"
    by (metis lookup_def map_of_eq_None_iff option.distinct(1))
  show "fetch_weather_data http rnd st location days net =
      (None, disable_source st (name source), net')"
    using sel bad by (auto simp: fetch_weather_data_def split: sum.splits option.splits)
  show "lookup (disable_source st (name source)) (name source) = Some (source\<lparr>enabled := False\<rparr>)"
    using reg by (simp add: lookup_disable)
  show "sleepers (disable_source st (name source)) = sleepers st @ [(name source, clock st + 300)]"
    using key by (simp add: sleepers_disable)
  fix m assume "m \<noteq> name source"
  then show "lookup (disable_source st (name source)) m = lookup st m"
    by (simp add: lookup_disable)
qed

lemma registry_ok_init_none: "registry_ok (init no_keys t)"
  by (simp add: registry_ok_def init_none new_source_def)

lemma select_init_none:
  "get_available_source rnd (init no_keys t) =
     Some (new_source ''metno'' METNO ''https://api.met.no'' None 5000)"
  by (simp add: get_available_source_def available_sources_def init_none is_available_def
      new_source_def)

lemma split_comma_example: "split_comma ''59.9,10.7'' = [''59.9'', ''10.7'']"
  by simp

lemma metno_empty:
  "convert_metno_to_standard (JDict []) days =
     Inr (PDict [(''data'', PDict
       [(''current_condition'', PList [PDict
           [(''temp_C'', PStr ''0''),
            (''weatherDesc'', PList [PDict [(''value'', PStr ''Clear'')]]),
            (''humidity'', PStr ''50''),
            (''windspeedKmph'', PStr ''10'')]]),
        (''weather'', PList [])])])"
  by (simp add: convert_metno_to_standard_def str_int_values)

lemma fetch_ok:
  "fetch_from_source always_ok (init no_keys 0)
     (new_source ''metno'' METNO ''https://api.met.no'' None 5000) ''59.9,10.7'' 3 0 =
   (Inr (Some (PDict [(''data'', PDict
       [(''current_condition'', PList [PDict
           [(''temp_C'', PStr ''0''),
            (''weatherDesc'', PList [PDict [(''value'', PStr ''Clear'')]]),
            (''humidity'', PStr ''50''),
            (''windspeedKmph'', PStr ''10'')]]),
        (''weather'', PList [])])])), 1)"
  by (simp add: fetch_from_source_def new_source_def fetch_metno_def split_comma_example
      always_ok_def on_response_def metno_empty)

lemma fetch_down:
  "fetch_from_source always_down (init no_keys 0)
     (new_source ''metno'' METNO ''https://api.met.no'' None 5000) ''59.9,10.7'' 3 0 =
   (Inl RequestException, 1)"
  by (simp add: fetch_from_source_def new_source_def fetch_metno_def split_comma_example
      always_down_def on_response_def)

theorem fetch_weather_data_outcome_witness:
  "fst (fetch_weather_data always_ok 0 (init no_keys 0) ''59.9,10.7'' 3 0) \<noteq> None \<and>
   snd (snd (fetch_weather_data always_ok 0 (init no_keys 0) ''59.9,10.7'' 3 0)) = 1 \<and>
   lookup (fst (snd (fetch_weather_data always_ok 0 (init no_keys 0) ''59.9,10.7'' 3 0))) ''metno'' =
     Some ((new_source ''metno'' METNO ''https://api.met.no'' None 5000)\<lparr>current_usage := 1\<rparr>) \<and>
   fetch_weather_data always_down 0 (init no_keys 0) ''59.9,10.7'' 3 0 =
     (None, disabled_once, 1) \<and>
   \<not> is_enabled disabled_once ''metno''"
proof -
  let ?s = "new_source ''metno'' METNO ''https://api.met.no'' None 5000"
  note ok = fetch_weather_data_outcome [OF registry_ok_init_none, of 0 0 always_ok "''59.9,10.7''" 3 0]
  note down = fetch_weather_data_outcome [OF registry_ok_init_none, of 0 0 always_down "''59.9,10.7''" 3 0]
  have n: "name ?s = ''metno''" "current_usage ?s = 0" by (simp_all add: new_source_def)
  have a: "fetch_weather_data always_ok 0 (init no_keys 0) ''59.9,10.7'' 3 0 =
      (Some (PDict [(''data'', PDict
       [(''current_condition'', PList [PDict
           [(''temp_C'', PStr ''0''),
            (''weatherDesc'', PList [PDict [(''value'', PStr ''Clear'')]]),
            (''humidity'', PStr ''50''),
            (''windspeedKmph'', PStr ''10'')]]),
        (''weather'', PList [])])]), mark_source_used (init no_keys 0) ''metno'', 1) \<and>
      lookup (mark_source_used (init no_keys 0) ''metno'') ''metno'' = Some (?s\<lparr>current_usage := 1\<rparr>)"
    using ok select_init_none [of 0 0] fetch_ok by (simp add: n)
  have b: "fetch_weather_data always_down 0 (init no_keys 0) ''59.9,10.7'' 3 0 =
      (None, disable_source (init no_keys 0) ''metno'', 1)"
    using down select_init_none [of 0 0] fetch_down by (simp add: n)
  show ?thesis
    using a b by (simp add: disabled_once_def is_enabled_disable)
qed

end
